theory Spec2Isabelle
  imports Main
begin

section \<open>Data model of package tools\<close>

text \<open>
  The Go types of \<^verbatim>\<open>go/tools/tools.go\<close>. \<^verbatim>\<open>ModulePath\<close>, \<^verbatim>\<open>ModuleFilePath\<close> and
  \<^verbatim>\<open>ModuleTagName\<close> are named string types; a Go string is a sequence of bytes, as a
  HOL \<open>string\<close> is.
\<close>

type_synonym ModulePath = string
type_synonym ModuleFilePath = string
type_synonym ModuleTagName = string

definition repoRootTag :: ModuleTagName where
  "repoRootTag = ''repoRootTag''"

record ModuleSet =
  Version :: string
  Modules :: "ModulePath list"

text \<open>
  \<^verbatim>\<open>ModuleSetMap\<close> is a Go map from set names to module sets. The only loop over it
  (\<^verbatim>\<open>buildModuleMap\<close>) ranges over its entries, in an order Go leaves unspecified. The model
  holds the entries in the order the range visits them, so a statement for every list is
  a statement for every map and every order of iteration.
\<close>

type_synonym ModuleSetMap = "(string \<times> ModuleSet) list"

record ModuleInfo =
  ModuleSetName :: string
  Version :: string

type_synonym ModuleInfoMap = "ModulePath \<rightharpoonup> ModuleInfo"
type_synonym ModulePathMap = "ModulePath \<rightharpoonup> ModuleFilePath"
type_synonym excludedModulesSet = "ModulePath \<rightharpoonup> unit"

record versionConfig =
  ModuleSets :: ModuleSetMap
  ExcludedModules :: "ModulePath list"

record ModuleVersioning =
  ModSetMap :: ModuleSetMap
  ModPathMap :: ModulePathMap
  ModInfoMap :: ModuleInfoMap

text \<open>
  The zero values \<^verbatim>\<open>versionConfig{}\<close> and \<^verbatim>\<open>ModuleVersioning{}\<close>: nil maps and nil slices,
  which read as empty ones.
\<close>

definition zero_versionConfig :: versionConfig where
  "zero_versionConfig = \<lparr>ModuleSets = [], ExcludedModules = []\<rparr>"

definition zero_ModuleVersioning :: ModuleVersioning where
  "zero_ModuleVersioning = \<lparr>ModSetMap = [], ModPathMap = Map.empty, ModInfoMap = Map.empty\<rparr>"

text \<open>
  Errors. The package builds every error of its own with \<^verbatim>\<open>fmt.Errorf\<close>; one constructor
  stands for each format string, its arguments the values formatted into it.
  \<open>External\<close> is an error value made outside the package (the operating system, viper),
  with its message. A Go function returning \<^verbatim>\<open>(T, error)\<close> returns a pair here, the error
  \<open>None\<close> for \<^verbatim>\<open>nil\<close>, so that the value returned beside an error is part of the model.
\<close>

datatype error =
    External string
  | ReadConfigError error
  | UnmarshalError error
  | DuplicateModuleError ModulePath string string
  | ExcludedModuleConflictError ModulePath
  | UnknownSetError string
  | UnknownModuleError ModulePath
  | PathOutsideRepoError ModuleFilePath string
  | InvalidManifestPathError ModuleFilePath
  | FilePathsError error
  | TagNamesError error
  | TagNameError error
  | ModSetMapError error
  | ModInfoMapError error
  | ModPathMapError error

primrec error_string :: "error \<Rightarrow> string" where
  "error_string (External msg) = msg"
| "error_string (ReadConfigError err) = ''error reading versionsConfig file: '' @ error_string err"
| "error_string (UnmarshalError err) = ''unable to unmarshal versionsConfig: '' @ error_string err"
| "error_string (DuplicateModuleError modPath set1 set2) =
     ''Module '' @ modPath @ '' exists more than once. Exists in sets '' @ set1 @ '' and '' @ set2 @ ''.''"
| "error_string (ExcludedModuleConflictError modPath) =
     ''Module '' @ modPath @ '' is an excluded module and should not be versioned.''"
| "error_string (UnknownSetError modSetName) =
     ''could not find module set '' @ modSetName @ '' in versioning file''"
| "error_string (UnknownModuleError modPath) =
     ''could not find module path '' @ modPath @ '' in path map.''"
| "error_string (PathOutsideRepoError modFilePath repoRoot) =
     ''modFilePath '' @ modFilePath @ '' not contained in repo with root '' @ repoRoot"
| "error_string (InvalidManifestPathError modFilePath) =
     ''modFilePath '' @ modFilePath @ '' does not end with '' @ [CHR 0x27] @ ''go.mod'' @ [CHR 0x27]"
| "error_string (FilePathsError err) =
     ''could not convert module paths to file paths: '' @ error_string err"
| "error_string (TagNamesError err) =
     ''could not convert module file paths to tag names: '' @ error_string err"
| "error_string (TagNameError err) =
     ''could not convert module file path to tag name: '' @ error_string err"
| "error_string (ModSetMapError err) =
     ''Error building module set map for NewModuleVersioningInfo: '' @ error_string err"
| "error_string (ModInfoMapError err) =
     ''Error building module info map for NewModuleVersioningInfo: '' @ error_string err"
| "error_string (ModPathMapError err) =
     ''Error building module path map for NewModuleVersioningInfo: '' @ error_string err"

section \<open>Library functions on strings and paths\<close>

text \<open>
  \<^verbatim>\<open>strings.HasPrefix\<close>, \<^verbatim>\<open>strings.TrimPrefix\<close>, \<^verbatim>\<open>strings.HasSuffix\<close> and
  \<^verbatim>\<open>strings.TrimSuffix\<close> of Go's standard library, on bytes.
\<close>

definition HasPrefix :: "string \<Rightarrow> string \<Rightarrow> bool" where
  "HasPrefix s pre = (length pre \<le> length s \<and> take (length pre) s = pre)"

definition TrimPrefix :: "string \<Rightarrow> string \<Rightarrow> string" where
  "TrimPrefix s pre = (if HasPrefix s pre then drop (length pre) s else s)"

definition HasSuffix :: "string \<Rightarrow> string \<Rightarrow> bool" where
  "HasSuffix s suf = (length suf \<le> length s \<and> drop (length s - length suf) s = suf)"

definition TrimSuffix :: "string \<Rightarrow> string \<Rightarrow> string" where
  "TrimSuffix s suf = (if HasSuffix s suf then take (length s - length suf) s else s)"

text \<open>
  \<^verbatim>\<open>filepath.Base\<close> where the separator is the slash: the last element of the path, after
  trailing slashes are dropped; \<^verbatim>\<open>"."\<close> for the empty path and \<^verbatim>\<open>"/"\<close> for a path of slashes.
\<close>

definition Base :: "string \<Rightarrow> string" where
  "Base path =
     (if path = [] then ''.''
      else let stripped = rev (dropWhile (\<lambda>c. c = CHR ''/'') (rev path));
               elem = rev (takeWhile (\<lambda>c. c \<noteq> CHR ''/'') (rev stripped))
           in if elem = [] then ''/'' else elem)"

section \<open>The world outside the package\<close>

text \<open>
  What the package calls and this file does not define, as parameters:
  \<^item> \<open>viper_ReadInConfig\<close> and \<open>viper_Unmarshal\<close>: the outcome of \<^verbatim>\<open>viper.ReadInConfig\<close> and
    \<^verbatim>\<open>viper.Unmarshal\<close> once \<^verbatim>\<open>readVersioningFile\<close> has pointed viper at the versioning
    file of that name (its directory, base name and extension);
  \<^item> \<open>filepath_Walk\<close>: the entries \<^verbatim>\<open>filepath.Walk\<close> hands to its callback below a root,
    in the order of the walk, each path with the error the walk met there (\<open>None\<close> for
    \<^verbatim>\<open>nil\<close>), for a callback that keeps returning \<^verbatim>\<open>nil\<close>;
  \<^item> \<open>ioutil_ReadFile\<close>: the bytes and the error of \<^verbatim>\<open>ioutil.ReadFile\<close>;
  \<^item> \<open>modfile_ModulePath\<close>: the module path \<^verbatim>\<open>modfile.ModulePath\<close> reads from the bytes
    of a go.mod file.
\<close>

record env =
  viper_ReadInConfig :: "string \<Rightarrow> error option"
  viper_Unmarshal :: "string \<Rightarrow> versionConfig \<times> error option"
  filepath_Walk :: "string \<Rightarrow> (string \<times> error option) list"
  ioutil_ReadFile :: "string \<Rightarrow> string \<times> error option"
  modfile_ModulePath :: "string \<Rightarrow> ModulePath"

text \<open>
  \<^verbatim>\<open>filepath.Walk(root, fn)\<close> calls \<open>fn\<close> on each entry in turn and stops at the first call
  that returns an error, which it returns (the callback of this package never returns
  \<^verbatim>\<open>filepath.SkipDir\<close>). The state \<open>'s\<close> is what the callback reads and writes.
\<close>

fun Walk :: "(string \<Rightarrow> error option \<Rightarrow> 's \<Rightarrow> error option \<times> 's) \<Rightarrow>
    (string \<times> error option) list \<Rightarrow> 's \<Rightarrow> error option \<times> 's" where
  "Walk fn [] st = (None, st)"
| "Walk fn ((path, err) # rest) st =
     (case fn path err st of
        (Some e, st') \<Rightarrow> (Some e, st')
      | (None, st') \<Rightarrow> Walk fn rest st')"

section \<open>Reading the configuration\<close>

definition readVersioningFile :: "env \<Rightarrow> string \<Rightarrow> versionConfig \<times> error option" where
  "readVersioningFile w versioningFilename =
     (case viper_ReadInConfig w versioningFilename of
        Some err \<Rightarrow> (zero_versionConfig, Some (ReadConfigError err))
      | None \<Rightarrow>
          (case viper_Unmarshal w versioningFilename of
             (versionCfg, Some err) \<Rightarrow> (zero_versionConfig, Some (UnmarshalError err))
           | (versionCfg, None) \<Rightarrow> (versionCfg, None)))"

definition buildModuleSetsMap :: "versionConfig \<Rightarrow> ModuleSetMap \<times> error option" where
  "buildModuleSetsMap versionCfg = (ModuleSets versionCfg, None)"

section \<open>Excluded modules\<close>

text \<open>The loop of \<^verbatim>\<open>getExcludedModules\<close>, adding each excluded module to the set.\<close>

fun excluded_loop :: "ModulePath list \<Rightarrow> excludedModulesSet \<Rightarrow> excludedModulesSet" where
  "excluded_loop [] excludedModules = excludedModules"
| "excluded_loop (m # rest) excludedModules = excluded_loop rest (excludedModules(m \<mapsto> ()))"

definition getExcludedModules :: "versionConfig \<Rightarrow> excludedModulesSet" where
  "getExcludedModules versionCfg = excluded_loop (ExcludedModules versionCfg) Map.empty"

definition shouldExcludeModule :: "versionConfig \<Rightarrow> ModulePath \<Rightarrow> bool" where
  "shouldExcludeModule versionCfg modPath =
     (let excludedModules = getExcludedModules versionCfg
      in excludedModules modPath \<noteq> None)"

section \<open>The module info index\<close>

text \<open>
  \<^verbatim>\<open>buildModuleMap\<close>: \<open>modules_loop\<close> is the inner loop over the modules of one set,
  \<open>sets_loop\<close> the outer loop over the sets. On an error the Go code returns the nil map
  beside it, the empty map here.
\<close>

fun modules_loop :: "versionConfig \<Rightarrow> string \<Rightarrow> ModuleSet \<Rightarrow> ModulePath list \<Rightarrow>
    ModuleInfoMap \<Rightarrow> ModuleInfoMap \<times> error option" where
  "modules_loop versionCfg setName moduleSet [] modMap = (modMap, None)"
| "modules_loop versionCfg setName moduleSet (modPath # rest) modMap =
     (case modMap modPath of
        Some info \<Rightarrow>
          (Map.empty, Some (DuplicateModuleError modPath (ModuleSetName info) setName))
      | None \<Rightarrow>
          if shouldExcludeModule versionCfg modPath
          then (Map.empty, Some (ExcludedModuleConflictError modPath))
          else modules_loop versionCfg setName moduleSet rest
                 (modMap(modPath \<mapsto>
                    \<lparr>ModuleSetName = setName, Version = ModuleSet.Version moduleSet\<rparr>)))"

fun sets_loop :: "versionConfig \<Rightarrow> (string \<times> ModuleSet) list \<Rightarrow>
    ModuleInfoMap \<Rightarrow> ModuleInfoMap \<times> error option" where
  "sets_loop versionCfg [] modMap = (modMap, None)"
| "sets_loop versionCfg ((setName, moduleSet) # rest) modMap =
     (case modules_loop versionCfg setName moduleSet (Modules moduleSet) modMap of
        (modMap', Some err) \<Rightarrow> (Map.empty, Some err)
      | (modMap', None) \<Rightarrow> sets_loop versionCfg rest modMap')"

definition buildModuleMap :: "versionConfig \<Rightarrow> ModuleInfoMap \<times> error option" where
  "buildModuleMap versionCfg = sets_loop versionCfg (ModuleSets versionCfg) Map.empty"

text \<open>
  The pairs of a set name and a module path that the two loops of \<^verbatim>\<open>buildModuleMap\<close>
  reach, in the order in which they reach them.
\<close>

definition listed_modules :: "ModuleSetMap \<Rightarrow> (string \<times> ModulePath) list" where
  "listed_modules sets =
     concat (map (\<lambda>(setName, moduleSet). map (Pair setName) (Modules moduleSet)) sets)"

section \<open>The module path index\<close>

text \<open>
  \<open>findGoMod\<close> is the callback of \<^verbatim>\<open>BuildModulePathMap\<close>. Its state is the map it fills
  (\<open>modPathMap\<close>, captured by the Go closure) and the lines it has printed to standard
  output. The \<^verbatim>\<open>fs.FileInfo\<close> argument is never read and is left out.
\<close>

definition walk_warning :: "error \<Rightarrow> string" where
  "walk_warning err =
     ''Warning: file could not be read during filepath.Walk(): '' @ error_string err"

definition findGoMod :: "versionConfig \<Rightarrow> env \<Rightarrow> string \<Rightarrow> error option \<Rightarrow>
    ModulePathMap \<times> string list \<Rightarrow> error option \<times> (ModulePathMap \<times> string list)" where
  "findGoMod versionCfg w filePath err st =
     (case err of
        Some werr \<Rightarrow> (None, (fst st, snd st @ [walk_warning werr]))
      | None \<Rightarrow>
          if Base filePath = ''go.mod'' then
            (case ioutil_ReadFile w filePath of
               (mod_bytes, Some rerr) \<Rightarrow> (Some rerr, st)
             | (mod_bytes, None) \<Rightarrow>
                 (let modPath = modfile_ModulePath w mod_bytes;
                      modFilePath = filePath;
                      excludedModules = getExcludedModules versionCfg
                  in if excludedModules modPath = None
                     then (None, ((fst st)(modPath \<mapsto> modFilePath), snd st))
                     else (None, st)))
          else (None, st))"

text \<open>
  \<^verbatim>\<open>BuildModulePathMap\<close> returns the map and the error; the third component is what it
  printed. On an error of the walk it returns the nil map.
\<close>

definition BuildModulePathMap :: "versionConfig \<Rightarrow> env \<Rightarrow> string \<Rightarrow>
    ModulePathMap \<times> error option \<times> string list" where
  "BuildModulePathMap versionCfg w root =
     (case Walk (findGoMod versionCfg w) (filepath_Walk w root) (Map.empty, []) of
        (Some err, (modPathMap, out)) \<Rightarrow> (Map.empty, Some err, out)
      | (None, (modPathMap, out)) \<Rightarrow> (modPathMap, None, out))"

section \<open>The versioning facade\<close>

text \<open>
  \<^verbatim>\<open>NewModuleVersioningInfo\<close> drops the error of \<^verbatim>\<open>readVersioningFile\<close> (the blank
  identifier) and goes on with the configuration returned beside it.
\<close>

definition NewModuleVersioningInfo :: "env \<Rightarrow> string \<Rightarrow> string \<Rightarrow>
    ModuleVersioning \<times> error option \<times> string list" where
  "NewModuleVersioningInfo w versioningFilename repoRoot =
     (let vCfg = fst (readVersioningFile w versioningFilename)
      in case buildModuleSetsMap vCfg of
           (modSetMap, Some err) \<Rightarrow> (zero_ModuleVersioning, Some (ModSetMapError err), [])
         | (modSetMap, None) \<Rightarrow>
             (case buildModuleMap vCfg of
                (modInfoMap, Some err) \<Rightarrow> (zero_ModuleVersioning, Some (ModInfoMapError err), [])
              | (modInfoMap, None) \<Rightarrow>
                  (case BuildModulePathMap vCfg w repoRoot of
                     (modPathMap, Some err, out) \<Rightarrow>
                       (zero_ModuleVersioning, Some (ModPathMapError err), out)
                   | (modPathMap, None, out) \<Rightarrow>
                       (\<lparr>ModSetMap = modSetMap, ModPathMap = modPathMap,
                         ModInfoMap = modInfoMap\<rparr>, None, out))))"

definition GetModuleSet :: "ModuleVersioning \<Rightarrow> string \<Rightarrow> ModuleSet \<times> error option" where
  "GetModuleSet modVersioning modSetName =
     (case map_of (ModSetMap modVersioning) modSetName of
        None \<Rightarrow> (\<lparr>ModuleSet.Version = [], Modules = []\<rparr>, Some (UnknownSetError modSetName))
      | Some modSet \<Rightarrow> (modSet, None))"

section \<open>Tag names\<close>

text \<open>
  \<^verbatim>\<open>CombineModuleTagNamesAndVersion\<close> starts from the nil slice and appends one full tag
  per tag name; \<open>combine_loop\<close> is its loop, with \<open>modFullTags\<close> the slice built so far.
\<close>

fun combine_loop :: "ModuleTagName list \<Rightarrow> string \<Rightarrow> string list \<Rightarrow> string list" where
  "combine_loop [] version modFullTags = modFullTags"
| "combine_loop (modTagName # rest) version modFullTags =
     (let newFullTag = (if modTagName = repoRootTag then version
                        else modTagName @ ''/'' @ version)
      in combine_loop rest version (modFullTags @ [newFullTag]))"

definition CombineModuleTagNamesAndVersion :: "ModuleTagName list \<Rightarrow> string \<Rightarrow> string list" where
  "CombineModuleTagNamesAndVersion modTagNames version = combine_loop modTagNames version []"

text \<open>
  \<^verbatim>\<open>modulePathsToFilePaths\<close>: on a module path missing from the map the Go code returns the
  empty slice \<^verbatim>\<open>[]ModuleFilePath{}\<close> beside the error, not the paths gathered so far.
\<close>

fun filePaths_loop :: "ModulePath list \<Rightarrow> ModulePathMap \<Rightarrow> ModuleFilePath list \<Rightarrow>
    ModuleFilePath list \<times> error option" where
  "filePaths_loop [] modPathMap modFilePaths = (modFilePaths, None)"
| "filePaths_loop (modPath # rest) modPathMap modFilePaths =
     (case modPathMap modPath of
        None \<Rightarrow> ([], Some (UnknownModuleError modPath))
      | Some modFilePath \<Rightarrow> filePaths_loop rest modPathMap (modFilePaths @ [modFilePath]))"

definition modulePathsToFilePaths :: "ModulePath list \<Rightarrow> ModulePathMap \<Rightarrow>
    ModuleFilePath list \<times> error option" where
  "modulePathsToFilePaths modPaths modPathMap = filePaths_loop modPaths modPathMap []"

definition moduleFilePathToTagName :: "ModuleFilePath \<Rightarrow> string \<Rightarrow> ModuleTagName \<times> error option" where
  "moduleFilePathToTagName modFilePath repoRoot =
     (if \<not> HasPrefix modFilePath (repoRoot @ ''/'')
      then ([], Some (PathOutsideRepoError modFilePath repoRoot))
      else if \<not> HasSuffix modFilePath ''go.mod''
      then ([], Some (InvalidManifestPathError modFilePath))
      else let modTagNameWithGoMod = TrimPrefix modFilePath (repoRoot @ ''/'');
               modTagName = TrimSuffix modTagNameWithGoMod ''/go.mod''
           in if modTagName = ''go.mod'' then (repoRootTag, None)
              else (modTagName, None))"

fun tagNames_loop :: "ModuleFilePath list \<Rightarrow> string \<Rightarrow> ModuleTagName list \<Rightarrow>
    ModuleTagName list \<times> error option" where
  "tagNames_loop [] repoRoot modNames = (modNames, None)"
| "tagNames_loop (modFilePath # rest) repoRoot modNames =
     (case moduleFilePathToTagName modFilePath repoRoot of
        (modTagName, Some err) \<Rightarrow> ([], Some (TagNameError err))
      | (modTagName, None) \<Rightarrow> tagNames_loop rest repoRoot (modNames @ [modTagName]))"

definition moduleFilePathsToTagNames :: "ModuleFilePath list \<Rightarrow> string \<Rightarrow>
    ModuleTagName list \<times> error option" where
  "moduleFilePathsToTagNames modFilePaths repoRoot = tagNames_loop modFilePaths repoRoot []"

definition ModulePathsToTagNames :: "ModulePath list \<Rightarrow> ModulePathMap \<Rightarrow> string \<Rightarrow>
    ModuleTagName list \<times> error option" where
  "ModulePathsToTagNames modPaths modPathMap repoRoot =
     (case modulePathsToFilePaths modPaths modPathMap of
        (modFilePaths, Some err) \<Rightarrow> ([], Some (FilePathsError err))
      | (modFilePaths, None) \<Rightarrow>
          (case moduleFilePathsToTagNames modFilePaths repoRoot of
             (modTagNames, Some err) \<Rightarrow> ([], Some (TagNamesError err))
           | (modTagNames, None) \<Rightarrow> (modTagNames, None)))"

section \<open>Sample repositories\<close>

text \<open>
  Concrete inputs for the examples below. \<open>sample_ModulePath\<close> stands in for
  \<^verbatim>\<open>modfile.ModulePath\<close> on manifests of the one line \<^verbatim>\<open>module <path>\<close>. A sample
  environment is given by the entries of the walk and by the outcome of reading each file;
  its configuration file cannot be read.
\<close>

definition sample_ModulePath :: "string \<Rightarrow> ModulePath" where
  "sample_ModulePath bytes = (if HasPrefix bytes ''module '' then drop 7 bytes else [])"

definition sample_env :: "(string \<times> error option) list \<Rightarrow>
    (string \<times> string \<times> error option) list \<Rightarrow> env" where
  "sample_env visits files =
     \<lparr>viper_ReadInConfig = (\<lambda>name. Some (External ''Config File Not Found'')),
      viper_Unmarshal = (\<lambda>name. (zero_versionConfig, None)),
      filepath_Walk = (\<lambda>root. visits),
      ioutil_ReadFile = (\<lambda>path. case map_of files path of
                           Some r \<Rightarrow> r
                         | None \<Rightarrow> ([], Some (External ''no such file or directory''))),
      modfile_ModulePath = sample_ModulePath\<rparr>"

text \<open>
  The walk of a repository \<^verbatim>\<open>/r\<close> with the manifests \<^verbatim>\<open>a/go.mod\<close>, \<^verbatim>\<open>b/go.mod\<close> and
  \<^verbatim>\<open>c/go.mod\<close>; \<open>err_b\<close> is the error the walk meets at \<^verbatim>\<open>b/go.mod\<close>.
\<close>

definition sample_visits :: "error option \<Rightarrow> (string \<times> error option) list" where
  "sample_visits err_b =
     [(''/r'', None), (''/r/a'', None), (''/r/a/go.mod'', None),
      (''/r/b'', None), (''/r/b/go.mod'', err_b),
      (''/r/c'', None), (''/r/c/go.mod'', None)]"

definition denied :: "string \<Rightarrow> error" where
  "denied call = External (call @ '' /r/b/go.mod: permission denied'')"

text \<open>All three manifests can be read.\<close>

definition repo_readable :: env where
  "repo_readable = sample_env (sample_visits None)
     [(''/r/a/go.mod'', (''module a'', None)),
      (''/r/b/go.mod'', (''module b'', None)),
      (''/r/c/go.mod'', (''module c'', None))]"

text \<open>The walk reaches \<^verbatim>\<open>b/go.mod\<close> without an error, and opening the file fails.\<close>

definition repo_unreadable :: env where
  "repo_unreadable = sample_env (sample_visits None)
     [(''/r/a/go.mod'', (''module a'', None)),
      (''/r/b/go.mod'', ([], Some (denied ''open''))),
      (''/r/c/go.mod'', (''module c'', None))]"

text \<open>The walk itself fails at \<^verbatim>\<open>b/go.mod\<close> (its \<^verbatim>\<open>lstat\<close>) and hands the error to the callback.\<close>

definition repo_walk_error :: env where
  "repo_walk_error = sample_env (sample_visits (Some (denied ''lstat'')))
     [(''/r/a/go.mod'', (''module a'', None)),
      (''/r/b/go.mod'', ([], Some (denied ''open''))),
      (''/r/c/go.mod'', (''module c'', None))]"

text \<open>
  The configuration file is read and cannot be decoded: \<^verbatim>\<open>viper.Unmarshal\<close> fails, having
  filled part of the configuration it was given. All three manifests can be read.
\<close>

definition repo_undecodable :: env where
  "repo_undecodable = repo_readable
     \<lparr>viper_ReadInConfig := (\<lambda>name. None),
      viper_Unmarshal := (\<lambda>name.
        (\<lparr>ModuleSets = [(''stable'', \<lparr>ModuleSet.Version = ''v1.0.0'', Modules = [''a'']\<rparr>)],
          ExcludedModules = [''b'']\<rparr>,
         Some (External ''1 error(s) decoding'')))\<rparr>"

section \<open>Properties\<close>

lemma combine_loop_map:
  "combine_loop ts v acc = acc @ map (\<lambda>t. if t = repoRootTag then v else t @ ''/'' @ v) ts"
  by (induction ts arbitrary: acc) simp_all

subsection \<open>Combining tag names with a version\<close>

text \<open>
  Claim C7. \<^verbatim>\<open>CombineModuleTagNamesAndVersion\<close> returns one string per tag name, in the
  order of the input: the version itself for the root tag, and the tag name, a slash and
  the version for any other tag name. The root tag and \<^verbatim>\<open>sdk/metric\<close> with \<^verbatim>\<open>v1.2.3\<close> give
  \<^verbatim>\<open>v1.2.3\<close> and \<^verbatim>\<open>sdk/metric/v1.2.3\<close>.
\<close>

theorem CombineModuleTagNamesAndVersion_in_order:
  "length (CombineModuleTagNamesAndVersion modTagNames version) = length modTagNames \<and>
   (\<forall>i < length modTagNames.
      CombineModuleTagNamesAndVersion modTagNames version ! i =
        (if modTagNames ! i = repoRootTag then version
         else modTagNames ! i @ ''/'' @ version)) \<and>
   CombineModuleTagNamesAndVersion [repoRootTag, ''sdk/metric''] ''v1.2.3'' =
     [''v1.2.3'', ''sdk/metric/v1.2.3'']"
  by (simp add: CombineModuleTagNamesAndVersion_def combine_loop_map repoRootTag_def)

theorem CombineModuleTagNamesAndVersion_in_order_witness:
  "CombineModuleTagNamesAndVersion [''exporters/otlp'', repoRootTag] ''v0.20.0'' ! 0 =
     ''exporters/otlp/v0.20.0'' \<and>
   CombineModuleTagNamesAndVersion [''exporters/otlp'', repoRootTag] ''v0.20.0'' ! 1 =
     ''v0.20.0''"
  using CombineModuleTagNamesAndVersion_in_order
    [of "[''exporters/otlp'', repoRootTag]" "''v0.20.0''"]
  by (simp add: repoRootTag_def)

subsection \<open>From module paths to file paths\<close>

lemma filePaths_loop_present:
  "\<forall>x \<in> set modPaths. modPathMap x \<noteq> None \<Longrightarrow>
   filePaths_loop modPaths modPathMap acc = (acc @ map (\<lambda>x. the (modPathMap x)) modPaths, None)"
  by (induction modPaths arbitrary: acc) auto

lemma filePaths_loop_missing:
  "List.find (\<lambda>x. modPathMap x = None) modPaths = Some missing \<Longrightarrow>
   filePaths_loop modPaths modPathMap acc = ([], Some (UnknownModuleError missing))"
  by (induction modPaths arbitrary: acc) (auto split: if_splits)

text \<open>
  Claim C9. If some module path of the input is absent from the path map,
  \<^verbatim>\<open>modulePathsToFilePaths\<close> returns the error naming the first absent one, and the empty
  slice beside it (none of the paths found before it). If every module path is present
  it returns no error and their file paths, in the order of the input.
\<close>

theorem modulePathsToFilePaths_fail_fast:
  "((\<exists>x \<in> set modPaths. modPathMap x = None) \<longrightarrow>
      (\<exists>missing. List.find (\<lambda>x. modPathMap x = None) modPaths = Some missing \<and>
         modulePathsToFilePaths modPaths modPathMap = ([], Some (UnknownModuleError missing)))) \<and>
   ((\<forall>x \<in> set modPaths. modPathMap x \<noteq> None) \<longrightarrow>
      snd (modulePathsToFilePaths modPaths modPathMap) = None \<and>
      map Some (fst (modulePathsToFilePaths modPaths modPathMap)) = map modPathMap modPaths)"
proof (intro conjI impI)
  assume "\<exists>x \<in> set modPaths. modPathMap x = None"
  then obtain missing where "List.find (\<lambda>x. modPathMap x = None) modPaths = Some missing"
    by (cases "List.find (\<lambda>x. modPathMap x = None) modPaths") (auto simp: find_None_iff)
  then show "\<exists>missing. List.find (\<lambda>x. modPathMap x = None) modPaths = Some missing \<and>
      modulePathsToFilePaths modPaths modPathMap = ([], Some (UnknownModuleError missing))"
    by (simp add: modulePathsToFilePaths_def filePaths_loop_missing)
next
  assume "\<forall>x \<in> set modPaths. modPathMap x \<noteq> None"
  then show "snd (modulePathsToFilePaths modPaths modPathMap) = None"
    by (simp add: modulePathsToFilePaths_def filePaths_loop_present)
next
  assume "\<forall>x \<in> set modPaths. modPathMap x \<noteq> None"
  then show "map Some (fst (modulePathsToFilePaths modPaths modPathMap)) = map modPathMap modPaths"
    by (auto simp: modulePathsToFilePaths_def filePaths_loop_present)
qed

theorem modulePathsToFilePaths_fail_fast_witness:
  "modulePathsToFilePaths [''a'', ''missing'', ''b'']
     [''a'' \<mapsto> ''/r/a/go.mod'', ''b'' \<mapsto> ''/r/b/go.mod''] =
     ([], Some (UnknownModuleError ''missing'')) \<and>
   modulePathsToFilePaths [''b'', ''a'']
     [''a'' \<mapsto> ''/r/a/go.mod'', ''b'' \<mapsto> ''/r/b/go.mod''] =
     ([''/r/b/go.mod'', ''/r/a/go.mod''], None)"
proof -
  let ?m = "[''a'' \<mapsto> ''/r/a/go.mod'', ''b'' \<mapsto> ''/r/b/go.mod'']"
  have 1: "\<exists>x \<in> set [''a'', ''missing'', ''b'']. ?m x = None"
    by simp
  have 2: "\<forall>x \<in> set [''b'', ''a'']. ?m x \<noteq> None"
    by simp
  from modulePathsToFilePaths_fail_fast [of "[''a'', ''missing'', ''b'']" ?m] 1
  obtain missing where
    "List.find (\<lambda>x. ?m x = None) [''a'', ''missing'', ''b''] = Some missing"
    "modulePathsToFilePaths [''a'', ''missing'', ''b''] ?m = ([], Some (UnknownModuleError missing))"
    by blast
  then have a: "modulePathsToFilePaths [''a'', ''missing'', ''b''] ?m =
      ([], Some (UnknownModuleError ''missing''))"
    by simp
  from modulePathsToFilePaths_fail_fast [of "[''b'', ''a'']" ?m] 2
  have "snd (modulePathsToFilePaths [''b'', ''a''] ?m) = None \<and>
      map Some (fst (modulePathsToFilePaths [''b'', ''a''] ?m)) = map ?m [''b'', ''a'']"
    by blast
  then have b: "modulePathsToFilePaths [''b'', ''a''] ?m = ([''/r/b/go.mod'', ''/r/a/go.mod''], None)"
    by (cases "modulePathsToFilePaths [''b'', ''a''] ?m") (auto simp: map_eq_Cons_conv)
  from a b show ?thesis by blast
qed

subsection \<open>Excluded modules\<close>

lemma excluded_loop_apply:
  "excluded_loop xs s m = (if m \<in> set xs then Some () else s m)"
  by (induction xs arbitrary: s) auto

lemma getExcludedModules_None:
  "(getExcludedModules versionCfg m = None) = (m \<notin> set (ExcludedModules versionCfg))"
  by (simp add: getExcludedModules_def excluded_loop_apply)

lemma shouldExcludeModule_iff:
  "shouldExcludeModule versionCfg m = (m \<in> set (ExcludedModules versionCfg))"
  by (simp add: shouldExcludeModule_def getExcludedModules_def excluded_loop_apply)

subsection \<open>The walk that builds the module path index\<close>

text \<open>One call of the callback, case by case.\<close>

lemma findGoMod_walk_error:
  "findGoMod versionCfg w p (Some e) (m, out) = (None, (m, out @ [walk_warning e]))"
  by (simp add: findGoMod_def)

lemma findGoMod_other_file:
  "Base p \<noteq> ''go.mod'' \<Longrightarrow> findGoMod versionCfg w p None st = (None, st)"
  by (simp add: findGoMod_def)

lemma findGoMod_unreadable:
  "Base p = ''go.mod'' \<Longrightarrow> ioutil_ReadFile w p = (b, Some e) \<Longrightarrow>
   findGoMod versionCfg w p None st = (Some e, st)"
  by (simp add: findGoMod_def)

lemma findGoMod_readable:
  "Base p = ''go.mod'' \<Longrightarrow> ioutil_ReadFile w p = (b, None) \<Longrightarrow>
   findGoMod versionCfg w p None (m, out) =
     (None, (if modfile_ModulePath w b \<in> set (ExcludedModules versionCfg) then m
             else m(modfile_ModulePath w b \<mapsto> p), out))"
  by (simp add: findGoMod_def getExcludedModules_None Let_def)

lemma findGoMod_split:
  obtains (walk_error) e where "err = Some e"
  | (other) "err = None" "Base p \<noteq> ''go.mod''"
  | (unreadable) b e where "err = None" "Base p = ''go.mod''" "ioutil_ReadFile w p = (b, Some e)"
  | (readable) b where "err = None" "Base p = ''go.mod''" "ioutil_ReadFile w p = (b, None)"
  by (cases err; cases "ioutil_ReadFile w p"; cases "snd (ioutil_ReadFile w p)"; cases "Base p = ''go.mod''") auto

text \<open>Evaluating the functions on the sample repositories.\<close>

lemmas sample_defs = sample_env_def sample_visits_def sample_ModulePath_def denied_def
  repo_readable_def repo_unreadable_def repo_walk_error_def zero_versionConfig_def
  zero_ModuleVersioning_def HasPrefix_def Base_def

lemma Walk_findGoMod_excluded:
  "Walk (findGoMod versionCfg w) vs (m, out) = (r, (m', out')) \<Longrightarrow>
   x \<in> set (ExcludedModules versionCfg) \<Longrightarrow> m x = None \<Longrightarrow> m' x = None"
proof (induction vs arbitrary: m out)
  case Nil
  then show ?case by simp
next
  case (Cons v vs)
  obtain p err where v: "v = (p, err)" by (cases v)
  show ?case
  proof (cases rule: findGoMod_split [where err = err and p = p and w = w])
    case (walk_error e)
    with Cons v show ?thesis by (simp add: findGoMod_walk_error)
  next
    case other
    with Cons v show ?thesis by (simp add: findGoMod_other_file)
  next
    case (unreadable b e)
    with Cons v show ?thesis by (simp add: findGoMod_unreadable)
  next
    case (readable b)
    with Cons.prems v have
      "Walk (findGoMod versionCfg w) vs
         (if modfile_ModulePath w b \<in> set (ExcludedModules versionCfg) then m
          else m(modfile_ModulePath w b \<mapsto> p), out) = (r, (m', out'))"
      by (simp add: findGoMod_readable)
    moreover have "(if modfile_ModulePath w b \<in> set (ExcludedModules versionCfg) then m
          else m(modfile_ModulePath w b \<mapsto> p)) x = None"
      using Cons.prems by auto
    ultimately show ?thesis using Cons.IH Cons.prems(2) by blast
  qed
qed

text \<open>
  Claim C6. Whatever the configuration and the tree, the index returned by a successful
  \<^verbatim>\<open>BuildModulePathMap\<close> has no entry for a module of the excluded-modules list, also
  when a manifest declaring that module is found by the walk.
\<close>

theorem BuildModulePathMap_no_excluded:
  assumes "BuildModulePathMap versionCfg w root = (modPathMap, None, out)"
    and "modPath \<in> set (ExcludedModules versionCfg)"
  shows "modPathMap modPath = None"
proof -
  obtain r m' out' where run:
    "Walk (findGoMod versionCfg w) (filepath_Walk w root) (Map.empty, []) = (r, (m', out'))"
    by (metis surj_pair)
  then have "m' modPath = None"
    using Walk_findGoMod_excluded [OF run assms(2)] by simp
  with assms(1) run show ?thesis
    by (cases r) (auto simp: BuildModulePathMap_def)
qed

theorem BuildModulePathMap_no_excluded_witness:
  "''b'' \<in> set (ExcludedModules \<lparr>ModuleSets = [], ExcludedModules = [''b'']\<rparr>) \<and>
   BuildModulePathMap \<lparr>ModuleSets = [], ExcludedModules = [''b'']\<rparr> repo_readable ''/r'' =
     ([''a'' \<mapsto> ''/r/a/go.mod'', ''c'' \<mapsto> ''/r/c/go.mod''], None, []) \<and>
   [''a'' \<mapsto> ''/r/a/go.mod'', ''c'' \<mapsto> ''/r/c/go.mod''] ''b'' = None"
proof -
  let ?cfg = "\<lparr>ModuleSets = [], ExcludedModules = [''b'']\<rparr>"
  have run: "BuildModulePathMap ?cfg repo_readable ''/r'' =
     ([''a'' \<mapsto> ''/r/a/go.mod'', ''c'' \<mapsto> ''/r/c/go.mod''], None, [])"
    by (simp add: BuildModulePathMap_def findGoMod_def getExcludedModules_def sample_defs)
  have excluded: "''b'' \<in> set (ExcludedModules ?cfg)"
    by simp
  from BuildModulePathMap_no_excluded [OF run excluded] run excluded
  show ?thesis by blast
qed

text \<open>
  The walk runs to its end when every manifest it reaches without an error can be read;
  the map it leaves holds the manifests it read, and only them.
\<close>

lemma Walk_findGoMod_no_abort:
  "\<forall>(p, err) \<in> set vs. err = None \<longrightarrow> Base p = ''go.mod'' \<longrightarrow> snd (ioutil_ReadFile w p) = None \<Longrightarrow>
   fst (Walk (findGoMod versionCfg w) vs (m, out)) = None"
proof (induction vs arbitrary: m out)
  case Nil
  then show ?case by simp
next
  case (Cons v vs)
  obtain p err where v: "v = (p, err)" by (cases v)
  from Cons.prems have rest:
    "\<forall>(p, err) \<in> set vs. err = None \<longrightarrow> Base p = ''go.mod'' \<longrightarrow> snd (ioutil_ReadFile w p) = None"
    by simp
  show ?case
  proof (cases rule: findGoMod_split [where err = err and p = p and w = w])
    case (walk_error e)
    with Cons.IH [OF rest] v show ?thesis by (simp add: findGoMod_walk_error)
  next
    case other
    with Cons.IH [OF rest] v show ?thesis by (simp add: findGoMod_other_file)
  next
    case (unreadable b e)
    with Cons.prems v show ?thesis by simp
  next
    case (readable b)
    with Cons.IH [OF rest] v show ?thesis by (simp add: findGoMod_readable)
  qed
qed

lemma Walk_findGoMod_sound:
  "Walk (findGoMod versionCfg w) vs (m, out) = (r, (m', out')) \<Longrightarrow> m' x = Some p \<Longrightarrow>
   m x = Some p \<or>
   (\<exists>b. (p, None) \<in> set vs \<and> Base p = ''go.mod'' \<and> ioutil_ReadFile w p = (b, None) \<and>
        modfile_ModulePath w b = x)"
proof (induction vs arbitrary: m out)
  case Nil
  then show ?case by simp
next
  case (Cons v vs)
  obtain q err where v: "v = (q, err)" by (cases v)
  show ?case
  proof (cases rule: findGoMod_split [where err = err and p = q and w = w])
    case (walk_error e)
    with Cons.prems v have "Walk (findGoMod versionCfg w) vs (m, out @ [walk_warning e]) = (r, (m', out'))"
      by (simp add: findGoMod_walk_error)
    from Cons.IH [OF this Cons.prems(2)] show ?thesis by auto
  next
    case other
    with Cons.prems v have "Walk (findGoMod versionCfg w) vs (m, out) = (r, (m', out'))"
      by (simp add: findGoMod_other_file)
    from Cons.IH [OF this Cons.prems(2)] show ?thesis by auto
  next
    case (unreadable b e)
    with Cons.prems v show ?thesis by (simp add: findGoMod_unreadable)
  next
    case (readable b)
    let ?m1 = "if modfile_ModulePath w b \<in> set (ExcludedModules versionCfg) then m
          else m(modfile_ModulePath w b \<mapsto> q)"
    from readable Cons.prems v have "Walk (findGoMod versionCfg w) vs (?m1, out) = (r, (m', out'))"
      by (simp add: findGoMod_readable)
    from Cons.IH [OF this Cons.prems(2)] have
      "?m1 x = Some p \<or> (\<exists>b. (p, None) \<in> set vs \<and> Base p = ''go.mod'' \<and>
          ioutil_ReadFile w p = (b, None) \<and> modfile_ModulePath w b = x)" .
    then show ?thesis
    proof
      assume "?m1 x = Some p"
      then have "m x = Some p \<or> (modfile_ModulePath w b = x \<and> q = p)"
        by (auto split: if_splits)
      with readable v show ?thesis by auto
    next
      assume "\<exists>b. (p, None) \<in> set vs \<and> Base p = ''go.mod'' \<and>
          ioutil_ReadFile w p = (b, None) \<and> modfile_ModulePath w b = x"
      then show ?thesis by auto
    qed
  qed
qed

lemma Walk_findGoMod_mono:
  "Walk (findGoMod versionCfg w) vs (m, out) = (None, (m', out')) \<Longrightarrow> m x \<noteq> None \<Longrightarrow>
   m' x \<noteq> None"
proof (induction vs arbitrary: m out)
  case Nil
  then show ?case by simp
next
  case (Cons v vs)
  obtain q err where v: "v = (q, err)" by (cases v)
  show ?case
  proof (cases rule: findGoMod_split [where err = err and p = q and w = w])
    case (walk_error e)
    with Cons v show ?thesis by (simp add: findGoMod_walk_error)
  next
    case other
    with Cons v show ?thesis by (simp add: findGoMod_other_file)
  next
    case (unreadable b e)
    with Cons.prems v show ?thesis by (simp add: findGoMod_unreadable)
  next
    case (readable b)
    let ?m1 = "if modfile_ModulePath w b \<in> set (ExcludedModules versionCfg) then m
          else m(modfile_ModulePath w b \<mapsto> q)"
    from readable Cons.prems v have "Walk (findGoMod versionCfg w) vs (?m1, out) = (None, (m', out'))"
      by (simp add: findGoMod_readable)
    moreover from Cons.prems(2) have "?m1 x \<noteq> None" by auto
    ultimately show ?thesis using Cons.IH by blast
  qed
qed

lemma Walk_findGoMod_complete:
  "Walk (findGoMod versionCfg w) vs (m, out) = (None, (m', out')) \<Longrightarrow>
   (p, None) \<in> set vs \<Longrightarrow> Base p = ''go.mod'' \<Longrightarrow> ioutil_ReadFile w p = (b, None) \<Longrightarrow>
   modfile_ModulePath w b \<notin> set (ExcludedModules versionCfg) \<Longrightarrow>
   m' (modfile_ModulePath w b) \<noteq> None"
proof (induction vs arbitrary: m out)
  case Nil
  then show ?case by simp
next
  case (Cons v vs)
  obtain q err where v: "v = (q, err)" by (cases v)
  show ?case
  proof (cases "v = (p, None)")
    case True
    with Cons.prems v have
      "Walk (findGoMod versionCfg w) vs (m(modfile_ModulePath w b \<mapsto> p), out) = (None, (m', out'))"
      by (simp add: findGoMod_readable)
    from Walk_findGoMod_mono [OF this] show ?thesis by simp
  next
    case False
    with Cons.prems have in_rest: "(p, None) \<in> set vs" by auto
    obtain r st1 where step: "findGoMod versionCfg w q err (m, out) = (r, st1)"
      by (metis surj_pair)
    obtain m1 out1 where st1: "st1 = (m1, out1)" by (cases st1)
    from Cons.prems(1) v step st1 have "Walk (findGoMod versionCfg w) vs (m1, out1) = (None, (m', out'))"
      by (cases r) auto
    from Cons.IH [OF this in_rest Cons.prems(3-5)] show ?thesis .
  qed
qed

lemma Walk_findGoMod_out:
  "Walk (findGoMod versionCfg w) vs (m, out) = (None, (m', out')) \<Longrightarrow>
   (p, Some e) \<in> set vs \<or> walk_warning e \<in> set out \<Longrightarrow> walk_warning e \<in> set out'"
proof (induction vs arbitrary: m out)
  case Nil
  then show ?case by simp
next
  case (Cons v vs)
  obtain q err where v: "v = (q, err)" by (cases v)
  show ?case
  proof (cases rule: findGoMod_split [where err = err and p = q and w = w])
    case (walk_error e')
    with Cons.prems v have "Walk (findGoMod versionCfg w) vs (m, out @ [walk_warning e']) = (None, (m', out'))"
      by (simp add: findGoMod_walk_error)
    moreover from Cons.prems(2) v walk_error
    have "(p, Some e) \<in> set vs \<or> walk_warning e \<in> set (out @ [walk_warning e'])" by auto
    ultimately show ?thesis using Cons.IH by blast
  next
    case other
    with Cons.prems v have "Walk (findGoMod versionCfg w) vs (m, out) = (None, (m', out'))"
      by (simp add: findGoMod_other_file)
    moreover from Cons.prems(2) v other
    have "(p, Some e) \<in> set vs \<or> walk_warning e \<in> set out" by auto
    ultimately show ?thesis using Cons.IH by blast
  next
    case (unreadable b e)
    with Cons.prems v show ?thesis by (simp add: findGoMod_unreadable)
  next
    case (readable b)
    let ?m1 = "if modfile_ModulePath w b \<in> set (ExcludedModules versionCfg) then m
          else m(modfile_ModulePath w b \<mapsto> q)"
    from readable Cons.prems v have "Walk (findGoMod versionCfg w) vs (?m1, out) = (None, (m', out'))"
      by (simp add: findGoMod_readable)
    moreover from Cons.prems(2) v readable
    have "(p, Some e) \<in> set vs \<or> walk_warning e \<in> set out" by auto
    ultimately show ?thesis using Cons.IH by blast
  qed
qed

text \<open>
  Claim C1, as stated, fails: in the sample repository the walk reaches \<^verbatim>\<open>b/go.mod\<close>
  without an error, \<^verbatim>\<open>ioutil.ReadFile\<close> fails on it, the callback returns that error and
  the walk stops. \<^verbatim>\<open>BuildModulePathMap\<close> returns the error and the nil map, and prints no
  warning.
\<close>

theorem BuildModulePathMap_unreadable_manifest_aborts:
  "BuildModulePathMap zero_versionConfig repo_unreadable ''/r'' =
     (Map.empty, Some (External ''open /r/b/go.mod: permission denied''), [])"
  by (simp add: BuildModulePathMap_def findGoMod_def getExcludedModules_def sample_defs)

text \<open>
  Claim C1, amended. Take a tree whose manifests are three: the walk itself reports an
  error for one of them (it hands the callback a non-nil error for that entry), and the two
  others can be read and declare two different modules, neither excluded. Then
  \<^verbatim>\<open>BuildModulePathMap\<close> succeeds, prints a warning for the entry with the error, and
  returns the index of exactly the two valid manifests: an error the walk reports for an
  entry is skipped and does not stop the walk.
\<close>

theorem BuildModulePathMap_skips_walk_error:
  assumes visited: "(p1, None) \<in> set (filepath_Walk w root)"
      "(p2, None) \<in> set (filepath_Walk w root)"
      "(p3, Some err3) \<in> set (filepath_Walk w root)"
    and manifests: "Base p1 = ''go.mod''" "Base p2 = ''go.mod''" "Base p3 = ''go.mod''"
    and no_other: "\<forall>(p, err) \<in> set (filepath_Walk w root). Base p = ''go.mod'' \<longrightarrow>
        (p, err) = (p1, None) \<or> (p, err) = (p2, None) \<or> (p, err) = (p3, Some err3)"
    and valid: "ioutil_ReadFile w p1 = (b1, None)" "ioutil_ReadFile w p2 = (b2, None)"
    and ids: "modfile_ModulePath w b1 \<noteq> modfile_ModulePath w b2"
      "modfile_ModulePath w b1 \<notin> set (ExcludedModules versionCfg)"
      "modfile_ModulePath w b2 \<notin> set (ExcludedModules versionCfg)"
  shows "\<exists>out. BuildModulePathMap versionCfg w root =
      ([modfile_ModulePath w b1 \<mapsto> p1, modfile_ModulePath w b2 \<mapsto> p2], None, out) \<and>
      walk_warning err3 \<in> set out"
proof -
  let ?vs = "filepath_Walk w root"
  let ?x1 = "modfile_ModulePath w b1" and ?x2 = "modfile_ModulePath w b2"
  have readable: "\<forall>(p, err) \<in> set ?vs. err = None \<longrightarrow> Base p = ''go.mod'' \<longrightarrow>
      snd (ioutil_ReadFile w p) = None"
    using no_other valid by fastforce
  obtain m' out' where run: "Walk (findGoMod versionCfg w) ?vs (Map.empty, []) = (None, (m', out'))"
    using Walk_findGoMod_no_abort [OF readable, of versionCfg Map.empty "[]"]
    by (metis prod.collapse)
  have only: "x = ?x1 \<and> p = p1 \<or> x = ?x2 \<and> p = p2" if "m' x = Some p" for x p
  proof -
    from Walk_findGoMod_sound [OF run that] obtain b where
      b: "(p, None) \<in> set ?vs" "Base p = ''go.mod''" "ioutil_ReadFile w p = (b, None)"
        "modfile_ModulePath w b = x"
      by auto
    with no_other have "p = p1 \<or> p = p2" by auto
    with b valid show ?thesis by auto
  qed
  have "m' ?x1 \<noteq> None"
    using Walk_findGoMod_complete [OF run visited(1) manifests(1) valid(1) ids(2)] .
  with only ids(1) have 1: "m' ?x1 = Some p1" by fastforce
  have "m' ?x2 \<noteq> None"
    using Walk_findGoMod_complete [OF run visited(2) manifests(2) valid(2) ids(3)] .
  with only ids(1) have 2: "m' ?x2 = Some p2" by fastforce
  have "m' = [?x1 \<mapsto> p1, ?x2 \<mapsto> p2]"
  proof
    fix x
    show "m' x = [?x1 \<mapsto> p1, ?x2 \<mapsto> p2] x"
      using 1 2 only [of x] by (cases "m' x") auto
  qed
  moreover have "walk_warning err3 \<in> set out'"
    using Walk_findGoMod_out [OF run, of p3 err3] visited(3) by simp
  ultimately show ?thesis
    using run by (simp add: BuildModulePathMap_def)
qed

theorem BuildModulePathMap_skips_walk_error_witness:
  "\<exists>out. BuildModulePathMap zero_versionConfig repo_walk_error ''/r'' =
      ([''a'' \<mapsto> ''/r/a/go.mod'', ''c'' \<mapsto> ''/r/c/go.mod''], None, out) \<and>
      walk_warning (denied ''lstat'') \<in> set out"
  using BuildModulePathMap_skips_walk_error
    [where ?p1.0 = "''/r/a/go.mod''" and ?p2.0 = "''/r/c/go.mod''" and ?p3.0 = "''/r/b/go.mod''"
       and ?err3.0 = "denied ''lstat''" and ?b1.0 = "''module a''" and ?b2.0 = "''module c''"
       and w = repo_walk_error and root = "''/r''" and versionCfg = zero_versionConfig]
  by (simp add: sample_defs)

subsection \<open>The versioning facade\<close>

lemma buildModuleMap_zero: "buildModuleMap zero_versionConfig = (Map.empty, None)"
  by (simp add: buildModuleMap_def zero_versionConfig_def)

text \<open>
  Claim C10, as stated, fails: the configuration file cannot be read, and the module path
  index returned is not empty, since the walk of the repository does not depend on the
  configuration (first sample); and the error returned is not nil when the walk fails
  (second sample).
\<close>

theorem NewModuleVersioningInfo_path_index_not_empty:
  "viper_ReadInConfig repo_readable ''versions.yaml'' \<noteq> None \<and>
   ModPathMap (fst (NewModuleVersioningInfo repo_readable ''versions.yaml'' ''/r'')) ''a'' =
     Some ''/r/a/go.mod'' \<and>
   viper_ReadInConfig repo_unreadable ''versions.yaml'' \<noteq> None \<and>
   NewModuleVersioningInfo repo_unreadable ''versions.yaml'' ''/r'' =
     (zero_ModuleVersioning,
      Some (ModPathMapError (External ''open /r/b/go.mod: permission denied'')), [])"
  by (simp add: NewModuleVersioningInfo_def readVersioningFile_def buildModuleSetsMap_def
      buildModuleMap_def BuildModulePathMap_def findGoMod_def getExcludedModules_def sample_defs)

text \<open>
  Claim C10, amended. Whenever \<^verbatim>\<open>readVersioningFile\<close> fails, be it that viper cannot read
  the versioning file or that it cannot decode it, the configuration returned beside the
  error is the zero configuration; \<^verbatim>\<open>NewModuleVersioningInfo\<close> drops the error and goes on
  with that configuration. What it returns is decided by \<^verbatim>\<open>BuildModulePathMap\<close> of the zero
  configuration on the repository root. If that walk succeeds, the module set index and the
  module info index are empty, the module path index is the map the walk built, and the
  error is nil. If that walk fails, the result is the zero \<^verbatim>\<open>ModuleVersioning\<close> and the
  error of the walk, wrapped.
\<close>

theorem NewModuleVersioningInfo_read_error_discarded:
  assumes "snd (readVersioningFile w versioningFilename) \<noteq> None"
  shows "fst (readVersioningFile w versioningFilename) = zero_versionConfig \<and>
    NewModuleVersioningInfo w versioningFilename repoRoot =
      (case BuildModulePathMap zero_versionConfig w repoRoot of
         (modPathMap, None, out) \<Rightarrow>
           (\<lparr>ModSetMap = [], ModPathMap = modPathMap, ModInfoMap = Map.empty\<rparr>, None, out)
       | (modPathMap, Some walk_err, out) \<Rightarrow>
           (zero_ModuleVersioning, Some (ModPathMapError walk_err), out))"
proof -
  from assms have r: "fst (readVersioningFile w versioningFilename) = zero_versionConfig"
    by (auto simp: readVersioningFile_def split: option.splits prod.splits)
  have s: "buildModuleSetsMap zero_versionConfig = ([], None)"
    by (simp add: buildModuleSetsMap_def zero_versionConfig_def)
  show ?thesis
    by (simp add: r NewModuleVersioningInfo_def s buildModuleMap_zero split: prod.splits option.splits)
qed

theorem NewModuleVersioningInfo_read_error_discarded_witness:
  "readVersioningFile repo_readable ''versions.yaml'' =
     (zero_versionConfig, Some (ReadConfigError (External ''Config File Not Found''))) \<and>
   NewModuleVersioningInfo repo_readable ''versions.yaml'' ''/r'' =
     (\<lparr>ModSetMap = [],
       ModPathMap = [''a'' \<mapsto> ''/r/a/go.mod'', ''b'' \<mapsto> ''/r/b/go.mod'', ''c'' \<mapsto> ''/r/c/go.mod''],
       ModInfoMap = Map.empty\<rparr>, None, []) \<and>
   readVersioningFile repo_undecodable ''versions.yaml'' =
     (zero_versionConfig, Some (UnmarshalError (External ''1 error(s) decoding''))) \<and>
   NewModuleVersioningInfo repo_undecodable ''versions.yaml'' ''/r'' =
     (\<lparr>ModSetMap = [],
       ModPathMap = [''a'' \<mapsto> ''/r/a/go.mod'', ''b'' \<mapsto> ''/r/b/go.mod'', ''c'' \<mapsto> ''/r/c/go.mod''],
       ModInfoMap = Map.empty\<rparr>, None, [])"
proof -
  have fails1: "readVersioningFile repo_readable ''versions.yaml'' =
     (zero_versionConfig, Some (ReadConfigError (External ''Config File Not Found'')))"
    by (simp add: readVersioningFile_def repo_readable_def sample_env_def)
  have fails2: "readVersioningFile repo_undecodable ''versions.yaml'' =
     (zero_versionConfig, Some (UnmarshalError (External ''1 error(s) decoding'')))"
    by (simp add: readVersioningFile_def repo_undecodable_def repo_readable_def sample_env_def)
  have run1: "BuildModulePathMap zero_versionConfig repo_readable ''/r'' =
     ([''a'' \<mapsto> ''/r/a/go.mod'', ''b'' \<mapsto> ''/r/b/go.mod'', ''c'' \<mapsto> ''/r/c/go.mod''], None, [])"
    by (simp add: BuildModulePathMap_def findGoMod_def getExcludedModules_def sample_defs)
  have run2: "BuildModulePathMap zero_versionConfig repo_undecodable ''/r'' =
     ([''a'' \<mapsto> ''/r/a/go.mod'', ''b'' \<mapsto> ''/r/b/go.mod'', ''c'' \<mapsto> ''/r/c/go.mod''], None, [])"
    by (simp add: BuildModulePathMap_def findGoMod_def getExcludedModules_def
        repo_undecodable_def sample_defs)
  from NewModuleVersioningInfo_read_error_discarded
         [of repo_readable "''versions.yaml''" "''/r''"]
       NewModuleVersioningInfo_read_error_discarded
         [of repo_undecodable "''versions.yaml''" "''/r''"]
  show ?thesis by (simp add: fails1 fails2 run1 run2)
qed

end
